theory Spec2Isabelle
  imports Main
begin

section \<open>Generated source text\<close>

text \<open>
  Modelled from the spec: \<open>Sourcelike\<close> is declared in \<open>Source.ts\<close>, outside
  \<open>language/Python.ts\<close>.  The generated source is assembled from tokens; the pieces that
  \<open>Python.ts\<close> builds are a string, a \<open>Name\<close> (the opaque handle that the naming
  surface returns for an entity, here with the entity's label), and an array of further
  pieces that are written one after the other.
\<close>

datatype sourcelike = Str string | NameRef string | Arr "sourcelike list"

text \<open>
  Modelled from the spec: \<open>MultiWord\<close>, also of \<open>Source.ts\<close>: a piece of source (the
  field \<open>source\<close> that \<open>Python.ts\<close> reads) with the note whether it must be put in
  parentheses before something is applied to it.
\<close>

record multi_word =
  source :: sourcelike
  needsParens :: bool

text \<open>
  \<open>multiWord\<close>, \<open>singleWord\<close> and \<open>parenIfNeeded\<close> are imported from \<open>Source.ts\<close>.
  \<open>Python.ts\<close> only calls them, so they are parameters of every function below, and
  every theorem holds whatever they compute.  A rest parameter \<open>...words\<close> is the list
  of the words.
\<close>

record source_helpers =
  multiWord :: "sourcelike \<Rightarrow> sourcelike list \<Rightarrow> multi_word"
  singleWord :: "sourcelike list \<Rightarrow> multi_word"
  parenIfNeeded :: "multi_word \<Rightarrow> sourcelike"

text \<open>\<open>panic\<close> of \<open>support/Support.ts\<close> throws; a panic is the left summand of a result.\<close>

datatype panic = Panic string

section \<open>Value-or-lambda and its composition\<close>

text \<open>
  \<open>type ValueOrLambda = { value: Sourcelike | undefined; lambda?: MultiWord }\<close>.
  An \<open>undefined\<close> or absent field is \<open>None\<close>.
\<close>

record value_or_lambda =
  vol_value :: "sourcelike option"
  vol_lambda :: "multi_word option"

text \<open>\<open>const identity: ValueOrLambda = { value: undefined }\<close>\<close>

definition identity :: value_or_lambda where
  "identity = \<lparr>vol_value = None, vol_lambda = None\<rparr>"

text \<open>\<open>makeLambda\<close> (lines 554-564).\<close>

definition makeLambda :: "source_helpers \<Rightarrow> value_or_lambda \<Rightarrow> multi_word" where
  "makeLambda H vol =
     (case vol_lambda vol of
        Some l \<Rightarrow>
          (case vol_value vol of
             None \<Rightarrow> l
           | Some v \<Rightarrow> multiWord H (Str '''') [Str ''lambda x: '', parenIfNeeded H l, Str ''(x)''])
      | None \<Rightarrow>
          (case vol_value vol of
             Some v \<Rightarrow> multiWord H (Str '' '') [Str ''lambda x:'', v]
           | None \<Rightarrow> multiWord H (Str '' '') [Str ''lambda x:'', Str ''x'']))"

text \<open>\<open>makeValue\<close> (lines 566-574).\<close>

definition makeValue :: "source_helpers \<Rightarrow> value_or_lambda \<Rightarrow> panic + sourcelike" where
  "makeValue H vol =
     (case vol_value vol of
        None \<Rightarrow> Inl (Panic ''Cannot make value from lambda without value'')
      | Some v \<Rightarrow>
          (case vol_lambda vol of
             Some l \<Rightarrow> Inr (Arr [parenIfNeeded H l, Str ''('', v, Str '')''])
           | None \<Rightarrow> Inr v))"

text \<open>
  The second argument of \<open>compose\<close> is either a function on source text or another
  value-or-lambda; the body tells them apart with \<open>typeof f === "function"\<close>.
\<close>

datatype composer = Step "sourcelike \<Rightarrow> sourcelike" | Vol value_or_lambda

text \<open>\<open>compose\<close> (lines 519-550), both overloads, in the order of the source's tests.\<close>

fun compose :: "source_helpers \<Rightarrow> value_or_lambda \<Rightarrow> composer \<Rightarrow> panic + value_or_lambda" where
  "compose H input (Step f) =
     (if vol_value input \<noteq> None then
        (case makeValue H input of
           Inl p \<Rightarrow> Inl p
         | Inr v \<Rightarrow> Inr \<lparr>vol_value = Some (f v), vol_lambda = None\<rparr>)
      else
        (case vol_lambda input of
           Some l \<Rightarrow>
             Inr \<lparr>vol_value = None,
                  vol_lambda = Some (multiWord H (Str '' '')
                    [Str ''lambda x:'', f (Arr [parenIfNeeded H l, Str ''(x)''])])\<rparr>
         | None \<Rightarrow>
             Inr \<lparr>vol_value = None,
                  vol_lambda = Some (multiWord H (Str '' '') [Str ''lambda x:'', f (Str ''x'')])\<rparr>))"
| "compose H input (Vol f) =
     (if vol_value f \<noteq> None then Inl (Panic ''Cannot compose into a value'')
      else
        (case vol_lambda f of
           None \<Rightarrow> Inr input
         | Some fl \<Rightarrow>
             (if vol_value input = None then
                (case vol_lambda input of
                   None \<Rightarrow> Inr f
                 | Some il \<Rightarrow>
                     Inr \<lparr>vol_value = None,
                          vol_lambda = Some (multiWord H (Str '''')
                            [Str ''lambda x: '', parenIfNeeded H fl, Str ''('',
                             parenIfNeeded H il, Str ''(x))''])\<rparr>)
              else
                (case makeValue H input of
                   Inl p \<Rightarrow> Inl p
                 | Inr v \<Rightarrow> Inr \<lparr>vol_value = Some v, vol_lambda = Some fl\<rparr>))))"

text \<open>
  An instance of the helpers for evaluating the functions on examples: several words are
  joined with the separator between them and need parentheses, one word does not.
\<close>

fun intercalate :: "'a \<Rightarrow> 'a list \<Rightarrow> 'a list" where
  "intercalate sep [] = []"
| "intercalate sep [x] = [x]"
| "intercalate sep (x # y # ys) = x # sep # intercalate sep (y # ys)"

definition plainSource :: source_helpers where
  "plainSource =
     \<lparr>multiWord = (\<lambda>sep ws. case ws of
          [w] \<Rightarrow> \<lparr>source = Arr [w], needsParens = False\<rparr>
        | _ \<Rightarrow> \<lparr>source = Arr (intercalate sep ws), needsParens = True\<rparr>),
      singleWord = (\<lambda>ws. \<lparr>source = Arr ws, needsParens = False\<rparr>),
      parenIfNeeded = (\<lambda>w. if needsParens w then Arr [Str ''('', source w, Str '')''] else source w)\<rparr>"

section \<open>The emitted union converter\<close>

text \<open>
  \<open>emitUnionConverter\<close> (lines 746-754) writes this Python function into the generated
  module:
  \<^verbatim>\<open>
  def from_union(fs, x):
      for f in fs:
          try:
              return f(x)
          except:
              pass
      assert False
  \<close>
  A branch \<open>f\<close> is a Python callable: applied to \<open>x\<close> in a state \<open>s\<close> of the running
  program it either returns a value or raises, and leaves a new state.  The state stands
  for everything a call can change, so a branch that is never called leaves no mark in it.
  The bare \<open>except:\<close> catches whatever was raised; \<open>assert False\<close> raises
  \<open>AssertionError\<close> (assertions are on unless Python is started with \<open>-O\<close>).
\<close>

datatype assertion = AssertionError

type_synonym ('a, 'b, 'e, 's) branch = "'a \<Rightarrow> 's \<Rightarrow> ('e + 'b) \<times> 's"

fun from_union :: "('a, 'b, 'e, 's) branch list \<Rightarrow> 'a \<Rightarrow> 's \<Rightarrow> (assertion + 'b) \<times> 's" where
  "from_union [] x s = (Inl AssertionError, s)"
| "from_union (f # fs) x s =
     (case f x s of
        (Inr y, s') \<Rightarrow> (Inr y, s')
      | (Inl e, s') \<Rightarrow> from_union fs x s')"

text \<open>
  \<open>raising fs x s\<close>: every branch of \<open>fs\<close>, called in order on \<open>x\<close> from state \<open>s\<close>,
  raises; the result is the state after the last call.
\<close>

fun raising :: "('a, 'b, 'e, 's) branch list \<Rightarrow> 'a \<Rightarrow> 's \<Rightarrow> 's option" where
  "raising [] x s = Some s"
| "raising (f # fs) x s =
     (case f x s of
        (Inl e, s') \<Rightarrow> raising fs x s'
      | (Inr y, s') \<Rightarrow> None)"

text \<open>Branches for examples: each appends its name to a log of the calls made.\<close>

definition failingBranch :: "string \<Rightarrow> (int, int, string, string list) branch" where
  "failingBranch name x s = (Inl ''ValueError'', s @ [name])"

definition succeedingBranch :: "string \<Rightarrow> int \<Rightarrow> (int, int, string, string list) branch" where
  "succeedingBranch name k x s = (Inr (x + k), s @ [name])"

section \<open>Identifier styles\<close>















section \<open>What the stylers rely on in the helpers\<close>

text \<open>
  \<open>snakeNameStyle\<close> hands \<open>combineWords\<close> the start-character check of version 3
  whatever the version is.  Whether a label can show this depends on what the helpers do
  with the check, and the helpers are parameters.  The four properties below say of a
  record of helpers what section 4.1 of the spec says of the steps they implement.
\<close>





section \<open>A record of helpers\<close>

text \<open>
  The functions that segment, legalise, style and join the words of a label are in
  \<open>support/Strings.ts\<close>, which is not part of \<open>language/Python.ts\<close>.  This section
  builds one record of helpers with the four properties above, following section 4.1 of
  the spec step by step, with the character tables of the first 256 code points.  It
  serves to show that the properties can hold together; it is not \<open>support/Strings.ts\<close>.
\<close>















section \<open>The type graph and its transformers\<close>

text \<open>
  Modelled from the spec: the declarations of \<open>Type\<close>, \<open>Transformation\<close> and the
  \<open>Transformer\<close> classes are in \<open>Type.ts\<close> and \<open>Transformers.ts\<close>, outside
  \<open>language/Python.ts\<close>.  The spec's type-graph query surface gives a type a kind, its
  structural children, and for a transformed type the transformer tree and its reverse.
  A type is one of the twelve cases that the source's calls of \<open>matchType\<close> list, with the
  transformation that \<open>transformationForType\<close> finds among its attributes, if any.  Class
  and enum types carry the \<open>Name\<close> that \<open>nameForNamedType\<close> returns for them.  A
  transformer is one of the classes that \<open>transformer\<close> tests with \<open>instanceof\<close>, with
  the fields the source reads; \<open>OtherTransformer\<close> stands for every other class, with its
  \<open>kind\<close>.  A transformation holds its transformer and target type, and those of its
  \<open>reverse\<close>.
\<close>

datatype qtype = TypeNode shape "transformation option"
  and shape =
      AnyType | NullType | BoolType | IntegerType | DoubleType | StringType
    | ArrayType qtype
    | ClassType string
    | MapType qtype
    | EnumType string
    | UnionType "qtype list"
    | TransformedStringType string
  and transformation = Transformation transformer_node qtype transformer_node qtype
  and transformer_node =
      DecodingChoiceTransformer qtype "transformer_node list"
    | ChoiceTransformer qtype "transformer_node list"
    | DecodingTransformer qtype "transformer_node option"
    | EncodingTransformer qtype
    | UnionInstantiationTransformer qtype
    | UnionMemberMatchTransformer qtype qtype "transformer_node option"
    | ParseStringTransformer qtype "transformer_node option"
    | StringifyTransformer qtype "transformer_node option"
    | OtherTransformer string qtype

text \<open>Modelled from the spec: \<open>t.kind\<close>, the kind of a type as a string, with the
  names that the source compares it with and that \<open>matchType\<close> gives its cases; a
  transformed string type carries its kind (\<open>date-time\<close>, \<open>integer-string\<close>, ...).\<close>

fun kind :: "qtype \<Rightarrow> string" where
  "kind (TypeNode AnyType a) = ''any''"
| "kind (TypeNode NullType a) = ''null''"
| "kind (TypeNode BoolType a) = ''bool''"
| "kind (TypeNode IntegerType a) = ''integer''"
| "kind (TypeNode DoubleType a) = ''double''"
| "kind (TypeNode StringType a) = ''string''"
| "kind (TypeNode (ArrayType items) a) = ''array''"
| "kind (TypeNode (ClassType n) a) = ''class''"
| "kind (TypeNode (MapType vals) a) = ''map''"
| "kind (TypeNode (EnumType n) a) = ''enum''"
| "kind (TypeNode (UnionType members) a) = ''union''"
| "kind (TypeNode (TransformedStringType k) a) = k"

text \<open>Modelled from the spec: \<open>xfer.sourceType\<close>, the declared source type of a
  transformer node.\<close>

fun sourceType :: "transformer_node \<Rightarrow> qtype" where
  "sourceType (DecodingChoiceTransformer s xs) = s"
| "sourceType (ChoiceTransformer s xs) = s"
| "sourceType (DecodingTransformer s c) = s"
| "sourceType (EncodingTransformer s) = s"
| "sourceType (UnionInstantiationTransformer s) = s"
| "sourceType (UnionMemberMatchTransformer s m c) = s"
| "sourceType (ParseStringTransformer s c) = s"
| "sourceType (StringifyTransformer s c) = s"
| "sourceType (OtherTransformer k s) = s"

section \<open>Converter functions\<close>

text \<open>\<open>ConverterFunction\<close> (lines 494-507), each with its string.\<close>

datatype converter_function =
    CfNone | CfBool | CfInt | CfFromFloat | CfToFloat | CfStr | CfToEnum | CfList
  | CfToClass | CfDict | CfUnion | CfFromDatetime | CfIsType

fun cfString :: "converter_function \<Rightarrow> string" where
  "cfString CfNone = ''none''"
| "cfString CfBool = ''bool''"
| "cfString CfInt = ''int''"
| "cfString CfFromFloat = ''from-float''"
| "cfString CfToFloat = ''to-float''"
| "cfString CfStr = ''str''"
| "cfString CfToEnum = ''to-enum''"
| "cfString CfList = ''list''"
| "cfString CfToClass = ''to-class''"
| "cfString CfDict = ''dict''"
| "cfString CfUnion = ''union''"
| "cfString CfFromDatetime = ''from-datetime''"
| "cfString CfIsType = ''is-type''"

text \<open>\<open>String.prototype.replace\<close> with a string pattern replaces the first occurrence
  only; \<open>startsWith\<close> compares a prefix.  Pattern and replacement are one character here.\<close>

fun replaceFirst :: "char \<Rightarrow> char \<Rightarrow> string \<Rightarrow> string" where
  "replaceFirst a b [] = []"
| "replaceFirst a b (c # cs) = (if c = a then b # cs else c # replaceFirst a b cs)"

definition startsWith :: "string \<Rightarrow> string \<Rightarrow> bool" where
  "startsWith s p = (take (length p) s = p)"

text \<open>
  \<open>conv\<close> (lines 824-829).  The source also adds \<open>cf\<close> to the set of converters whose
  definitions are emitted afterwards, and \<open>withImport\<close> below adds to the imports;
  nothing in the functions of this theory reads either back, so they are left out.
\<close>

definition conv :: "converter_function \<Rightarrow> sourcelike" where
  "conv cf =
     (let name = replaceFirst (CHR ''-'') (CHR ''_'') (cfString cf)
      in if startsWith (cfString cf) ''from-'' \<or> startsWith (cfString cf) ''to-'' \<or>
            startsWith (cfString cf) ''is-''
         then Str name
         else Arr [Str ''from_'', Str name])"

text \<open>\<open>convFn\<close> (lines 831-836).\<close>

definition convFn :: "source_helpers \<Rightarrow> converter_function \<Rightarrow> value_or_lambda \<Rightarrow> panic + value_or_lambda" where
  "convFn H cf arg = compose H arg (Vol \<lparr>vol_value = None, vol_lambda = Some (singleWord H [conv cf])\<rparr>)"

text \<open>\<open>withImport\<close> (lines 300-309) returns the name it is given.\<close>

definition withImport :: "string \<Rightarrow> string \<Rightarrow> sourcelike" where
  "withImport module name = Str name"

text \<open>\<open>typeObject\<close> (lines 838-863).\<close>

fun typeObject :: "qtype \<Rightarrow> panic + sourcelike" where
  "typeObject (TypeNode NullType a) = Inr (Str ''type(None)'')"
| "typeObject (TypeNode BoolType a) = Inr (Str ''bool'')"
| "typeObject (TypeNode IntegerType a) = Inr (Str ''int'')"
| "typeObject (TypeNode DoubleType a) = Inr (Str ''float'')"
| "typeObject (TypeNode StringType a) = Inr (Str ''str'')"
| "typeObject (TypeNode (ArrayType items) a) = Inr (Str ''List'')"
| "typeObject (TypeNode (ClassType n) a) = Inr (NameRef n)"
| "typeObject (TypeNode (MapType vals) a) = Inr (Str ''dict'')"
| "typeObject (TypeNode (EnumType n) a) = Inr (NameRef n)"
| "typeObject (TypeNode (TransformedStringType k) a) =
     (if k = ''date-time'' then Inr (withImport ''datetime'' ''datetime'')
      else Inl (Panic (''No type object for '' @ k)))"
| "typeObject t = Inl (Panic (''No type object for '' @ kind t))"

text \<open>\<open>arrayIntercalate\<close> of the package \<open>collection-utils\<close> puts the separator between
  the elements; the result is one array inside the surrounding one.\<close>

definition arrayIntercalate :: "sourcelike \<Rightarrow> sourcelike list \<Rightarrow> sourcelike" where
  "arrayIntercalate sep xs = Arr (intercalate sep xs)"

section \<open>The transformer compiler\<close>

text \<open>
  \<open>transformer\<close> (lines 865-945), \<open>deserializer\<close> (lines 947-1012) and \<open>serializer\<close>
  (lines 1014-1081), with the local function \<open>consume\<close> of \<open>transformer\<close>.  The three
  \<open>map\<close> calls over the branches of a choice and over the members of a union are
  \<open>transformerLambdas\<close>, \<open>deserializerLambdas\<close> and \<open>serializerLambdas\<close>: each element is
  compiled from \<open>identity\<close> and made a lambda, in order, and the first panic ends the
  call.

  Where the source passes \<open>compose\<close> a function whose body compiles a subterm (the element
  type of an array, the type object of a union member), the subterm is compiled first and
  the step is built from the result.  \<open>compose\<close> calls its function exactly once on each of
  its paths and cannot panic before that call, so this is the same computation.
\<close>

function
  transformer :: "source_helpers \<Rightarrow> value_or_lambda \<Rightarrow> transformer_node \<Rightarrow> qtype \<Rightarrow> panic + value_or_lambda"
  and consume :: "source_helpers \<Rightarrow> transformer_node option \<Rightarrow> value_or_lambda \<Rightarrow> qtype \<Rightarrow> panic + value_or_lambda"
  and transformerLambdas :: "source_helpers \<Rightarrow> transformer_node list \<Rightarrow> qtype \<Rightarrow> panic + sourcelike list"
  and deserializer :: "source_helpers \<Rightarrow> value_or_lambda \<Rightarrow> qtype \<Rightarrow> panic + value_or_lambda"
  and deserializerLambdas :: "source_helpers \<Rightarrow> qtype list \<Rightarrow> panic + sourcelike list"
  and serializer :: "source_helpers \<Rightarrow> value_or_lambda \<Rightarrow> qtype \<Rightarrow> panic + value_or_lambda"
  and serializerLambdas :: "source_helpers \<Rightarrow> qtype list \<Rightarrow> panic + sourcelike list"
where
  "consume H None vol targetType = Inr vol"
| "consume H (Some consumer) vol targetType = transformer H vol consumer targetType"

| "transformerLambdas H [] targetType = Inr []"
| "transformerLambdas H (x # xs) targetType =
     (case transformer H identity x targetType of
        Inl p \<Rightarrow> Inl p
      | Inr vol \<Rightarrow>
          (case transformerLambdas H xs targetType of
             Inl p \<Rightarrow> Inl p
           | Inr ls \<Rightarrow> Inr (source (makeLambda H vol) # ls)))"

| "transformer H inputTransformer (DecodingChoiceTransformer s transformers) targetType =
     (case transformerLambdas H transformers targetType of
        Inl p \<Rightarrow> Inl p
      | Inr lambdas \<Rightarrow>
          compose H inputTransformer
            (Step (\<lambda>v. Arr [conv CfUnion, Str ''(['', arrayIntercalate (Str '', '') lambdas,
                            Str ''], '', v, Str '')''])))"
| "transformer H inputTransformer (ChoiceTransformer s transformers) targetType =
     (case transformerLambdas H transformers targetType of
        Inl p \<Rightarrow> Inl p
      | Inr lambdas \<Rightarrow>
          compose H inputTransformer
            (Step (\<lambda>v. Arr [conv CfUnion, Str ''(['', arrayIntercalate (Str '', '') lambdas,
                            Str ''], '', v, Str '')''])))"
| "transformer H inputTransformer (DecodingTransformer s consumer) targetType =
     (case deserializer H inputTransformer s of
        Inl p \<Rightarrow> Inl p
      | Inr vol \<Rightarrow> consume H consumer vol targetType)"
| "transformer H inputTransformer (EncodingTransformer s) targetType =
     serializer H inputTransformer s"
| "transformer H inputTransformer (UnionInstantiationTransformer s) targetType =
     Inr inputTransformer"
| "transformer H inputTransformer (UnionMemberMatchTransformer s memberType consumer) targetType =
     (case typeObject memberType of
        Inl p \<Rightarrow> Inl p
      | Inr tobj \<Rightarrow>
          (case compose H inputTransformer
                  (Step (\<lambda>v. Arr [conv CfIsType, Str ''('', tobj, Str '', '', v, Str '')''])) of
             Inl p \<Rightarrow> Inl p
           | Inr vol \<Rightarrow> consume H consumer vol targetType))"
| "transformer H inputTransformer (ParseStringTransformer s consumer) targetType =
     (let immediateTargetType = (case consumer of None \<Rightarrow> targetType | Some c \<Rightarrow> sourceType c)
      in if kind immediateTargetType = ''integer'' then
           (case compose H inputTransformer (Step (\<lambda>v. Arr [Str ''int('', v, Str '')''])) of
              Inl p \<Rightarrow> Inl p
            | Inr vol \<Rightarrow> consume H consumer vol targetType)
         else if kind immediateTargetType = ''enum'' then
           (case deserializer H inputTransformer immediateTargetType of
              Inl p \<Rightarrow> Inl p
            | Inr vol \<Rightarrow> consume H consumer vol targetType)
         else if kind immediateTargetType = ''date-time'' then
           (case convFn H CfFromDatetime inputTransformer of
              Inl p \<Rightarrow> Inl p
            | Inr vol \<Rightarrow> consume H consumer vol targetType)
         else Inl (Panic (''Parsing of '' @ kind immediateTargetType @
                          '' in a transformer is not supported'')))"
| "transformer H inputTransformer (StringifyTransformer s consumer) targetType =
     (if kind s = ''integer'' then
        (case compose H inputTransformer (Step (\<lambda>v. Arr [Str ''str('', v, Str '')''])) of
           Inl p \<Rightarrow> Inl p
         | Inr vol \<Rightarrow> consume H consumer vol targetType)
      else if kind s = ''enum'' then
        (case serializer H inputTransformer s of
           Inl p \<Rightarrow> Inl p
         | Inr vol \<Rightarrow> consume H consumer vol targetType)
      else if kind s = ''date-time'' then
        (case compose H inputTransformer (Step (\<lambda>v. Arr [v, Str ''.isoformat()''])) of
           Inl p \<Rightarrow> Inl p
         | Inr vol \<Rightarrow> consume H consumer vol targetType)
      else Inl (Panic (''Parsing of '' @ kind s @ '' in a transformer is not supported'')))"
| "transformer H inputTransformer (OtherTransformer k s) targetType =
     Inl (Panic (''Transformer '' @ k @ '' is not supported''))"

| "deserializerLambdas H [] = Inr []"
| "deserializerLambdas H (m # ms) =
     (case deserializer H identity m of
        Inl p \<Rightarrow> Inl p
      | Inr vol \<Rightarrow>
          (case deserializerLambdas H ms of
             Inl p \<Rightarrow> Inl p
           | Inr ls \<Rightarrow> Inr (source (makeLambda H vol) # ls)))"

| "deserializer H val (TypeNode sh (Some (Transformation xfTransformer xfTarget revTransformer revTarget))) =
     transformer H val xfTransformer xfTarget"
| "deserializer H val (TypeNode AnyType None) = Inr val"
| "deserializer H val (TypeNode NullType None) = convFn H CfNone val"
| "deserializer H val (TypeNode BoolType None) = convFn H CfBool val"
| "deserializer H val (TypeNode IntegerType None) = convFn H CfInt val"
| "deserializer H val (TypeNode DoubleType None) = convFn H CfFromFloat val"
| "deserializer H val (TypeNode StringType None) = convFn H CfStr val"
| "deserializer H val (TypeNode (ArrayType items) None) =
     (case deserializer H identity items of
        Inl p \<Rightarrow> Inl p
      | Inr d \<Rightarrow>
          compose H val
            (Step (\<lambda>v. Arr [conv CfList, Str ''('', source (makeLambda H d), Str '', '', v, Str '')''])))"
| "deserializer H val (TypeNode (ClassType n) None) =
     compose H val
       (Vol \<lparr>vol_value = None, vol_lambda = Some (singleWord H [NameRef n, Str ''.from_dict''])\<rparr>)"
| "deserializer H val (TypeNode (MapType vals) None) =
     (case deserializer H identity vals of
        Inl p \<Rightarrow> Inl p
      | Inr d \<Rightarrow>
          compose H val
            (Step (\<lambda>v. Arr [conv CfDict, Str ''('', source (makeLambda H d), Str '', '', v, Str '')''])))"
| "deserializer H val (TypeNode (EnumType n) None) =
     compose H val (Vol \<lparr>vol_value = None, vol_lambda = Some (singleWord H [NameRef n])\<rparr>)"
| "deserializer H val (TypeNode (UnionType members) None) =
     (case deserializerLambdas H members of
        Inl p \<Rightarrow> Inl p
      | Inr deserializers \<Rightarrow>
          compose H val
            (Step (\<lambda>v. Arr [conv CfUnion, Str ''(['', arrayIntercalate (Str '', '') deserializers,
                            Str ''], '', v, Str '')''])))"
| "deserializer H val (TypeNode (TransformedStringType k) None) =
     (if k = ''date-time'' then convFn H CfFromDatetime val
      else Inl (Panic (''Transformed type '' @ k @ '' not supported'')))"

| "serializerLambdas H [] = Inr []"
| "serializerLambdas H (m # ms) =
     (case serializer H identity m of
        Inl p \<Rightarrow> Inl p
      | Inr vol \<Rightarrow>
          (case serializerLambdas H ms of
             Inl p \<Rightarrow> Inl p
           | Inr ls \<Rightarrow> Inr (source (makeLambda H vol) # ls)))"

| "serializer H val (TypeNode sh (Some (Transformation xfTransformer xfTarget revTransformer revTarget))) =
     transformer H val revTransformer revTarget"
| "serializer H val (TypeNode AnyType None) = Inr val"
| "serializer H val (TypeNode NullType None) = convFn H CfNone val"
| "serializer H val (TypeNode BoolType None) = convFn H CfBool val"
| "serializer H val (TypeNode IntegerType None) = convFn H CfInt val"
| "serializer H val (TypeNode DoubleType None) = convFn H CfToFloat val"
| "serializer H val (TypeNode StringType None) = convFn H CfStr val"
| "serializer H val (TypeNode (ArrayType items) None) =
     (case serializer H identity items of
        Inl p \<Rightarrow> Inl p
      | Inr d \<Rightarrow>
          compose H val
            (Step (\<lambda>v. Arr [conv CfList, Str ''('', source (makeLambda H d), Str '', '', v, Str '')''])))"
| "serializer H val (TypeNode (ClassType n) None) =
     compose H val (Step (\<lambda>v. Arr [conv CfToClass, Str ''('', NameRef n, Str '', '', v, Str '')'']))"
| "serializer H val (TypeNode (MapType vals) None) =
     (case serializer H identity vals of
        Inl p \<Rightarrow> Inl p
      | Inr d \<Rightarrow>
          compose H val
            (Step (\<lambda>v. Arr [conv CfDict, Str ''('', source (makeLambda H d), Str '', '', v, Str '')''])))"
| "serializer H val (TypeNode (EnumType n) None) =
     compose H val (Step (\<lambda>v. Arr [conv CfToEnum, Str ''('', NameRef n, Str '', '', v, Str '')'']))"
| "serializer H val (TypeNode (UnionType members) None) =
     (case serializerLambdas H members of
        Inl p \<Rightarrow> Inl p
      | Inr serializers \<Rightarrow>
          compose H val
            (Step (\<lambda>v. Arr [conv CfUnion, Str ''(['', arrayIntercalate (Str '', '') serializers,
                            Str ''], '', v, Str '')''])))"
| "serializer H val (TypeNode (TransformedStringType k) None) =
     (if k = ''date-time'' then compose H val (Step (\<lambda>v. Arr [v, Str ''.isoformat()'']))
      else Inl (Panic (''Transformed type '' @ k @ '' not supported'')))"
  by pat_completeness auto

termination
  apply (relation "measure (\<lambda>a. case a of
        Inl (Inl (H, v, x, t)) \<Rightarrow> size x + size t
      | Inl (Inr (Inl (H, c, v, t))) \<Rightarrow> size_option size c + size t
      | Inl (Inr (Inr (H, xs, t))) \<Rightarrow> size_list size xs + size t
      | Inr (Inl (Inl (H, v, t))) \<Rightarrow> size t
      | Inr (Inl (Inr (H, ts))) \<Rightarrow> size_list size ts
      | Inr (Inr (Inl (H, v, t))) \<Rightarrow> size t
      | Inr (Inr (Inr (H, ts))) \<Rightarrow> size_list size ts)")
                      apply (auto simp: less_Suc_eq_le split: option.splits)
  subgoal for s targetType c
    by (cases c) simp_all
  done

section \<open>Example types and transformers\<close>

text \<open>Small type graphs for evaluating the compiler: primitive types without a
  transformation, an enum, and the transformed string type of dates.\<close>

definition integerType :: qtype where
  "integerType = TypeNode IntegerType None"

definition stringType :: qtype where
  "stringType = TypeNode StringType None"

definition boolType :: qtype where
  "boolType = TypeNode BoolType None"

definition colorEnum :: qtype where
  "colorEnum = TypeNode (EnumType ''Color'') None"

definition dateTimeType :: qtype where
  "dateTimeType = TypeNode (TransformedStringType ''date-time'') None"

definition sValue :: value_or_lambda where
  "sValue = \<lparr>vol_value = Some (Str ''s''), vol_lambda = None\<rparr>"

section \<open>Properties of the composition\<close>

text \<open>
  C1. The composition rule for a transformation step \<open>f\<close>.  When the current
  representation has a concrete value, the result is a concrete value and nothing else:
  \<open>f\<close> applied to that value (to the value itself when no function is pending, to the
  pending function applied to it otherwise).  When it is a pending function only, the
  result is a new function only: \<open>lambda x:\<close> followed by \<open>f\<close> applied to the pending
  function called on \<open>x\<close>.  When it is neither, the result is \<open>lambda x:\<close> followed by
  \<open>f\<close> applied to \<open>x\<close>.  No case panics.
\<close>

theorem compose_step_rule:
  "(vol_value input = Some v \<and> vol_lambda input = None \<longrightarrow>
      compose H input (Step f) = Inr \<lparr>vol_value = Some (f v), vol_lambda = None\<rparr>) \<and>
   (vol_value input = Some v \<and> vol_lambda input = Some l \<longrightarrow>
      compose H input (Step f) =
        Inr \<lparr>vol_value = Some (f (Arr [parenIfNeeded H l, Str ''('', v, Str '')''])),
             vol_lambda = None\<rparr>) \<and>
   (vol_value input = None \<and> vol_lambda input = Some l \<longrightarrow>
      compose H input (Step f) =
        Inr \<lparr>vol_value = None,
             vol_lambda = Some (multiWord H (Str '' '')
               [Str ''lambda x:'', f (Arr [parenIfNeeded H l, Str ''(x)''])])\<rparr>) \<and>
   (vol_value input = None \<and> vol_lambda input = None \<longrightarrow>
      compose H input (Step f) =
        Inr \<lparr>vol_value = None,
             vol_lambda = Some (multiWord H (Str '' '') [Str ''lambda x:'', f (Str ''x'')])\<rparr>)"
  by (simp add: makeValue_def)

theorem compose_step_rule_witness:
  "compose plainSource \<lparr>vol_value = Some (Str ''s''), vol_lambda = None\<rparr>
      (Step (\<lambda>v. Arr [Str ''int('', v, Str '')''])) =
     Inr \<lparr>vol_value = Some (Arr [Str ''int('', Str ''s'', Str '')'']), vol_lambda = None\<rparr> \<and>
   compose plainSource
      \<lparr>vol_value = Some (Str ''s''),
       vol_lambda = Some \<lparr>source = Str ''from_str'', needsParens = False\<rparr>\<rparr>
      (Step (\<lambda>v. Arr [Str ''int('', v, Str '')''])) =
     Inr \<lparr>vol_value = Some (Arr [Str ''int('',
              Arr [Str ''from_str'', Str ''('', Str ''s'', Str '')''], Str '')'']),
          vol_lambda = None\<rparr> \<and>
   compose plainSource
      \<lparr>vol_value = None, vol_lambda = Some \<lparr>source = Str ''from_str'', needsParens = False\<rparr>\<rparr>
      (Step (\<lambda>v. Arr [Str ''int('', v, Str '')''])) =
     Inr \<lparr>vol_value = None,
          vol_lambda = Some \<lparr>source = Arr [Str ''lambda x:'', Str '' '',
              Arr [Str ''int('', Arr [Str ''from_str'', Str ''(x)''], Str '')'']],
            needsParens = True\<rparr>\<rparr> \<and>
   compose plainSource identity (Step (\<lambda>v. Arr [Str ''int('', v, Str '')''])) =
     Inr \<lparr>vol_value = None,
          vol_lambda = Some \<lparr>source = Arr [Str ''lambda x:'', Str '' '',
              Arr [Str ''int('', Str ''x'', Str '')'']],
            needsParens = True\<rparr>\<rparr>"
  using
    compose_step_rule [where H = plainSource and f = "\<lambda>v. Arr [Str ''int('', v, Str '')'']"
      and input = "\<lparr>vol_value = Some (Str ''s''), vol_lambda = None\<rparr>" and v = "Str ''s''"]
    compose_step_rule [where H = plainSource and f = "\<lambda>v. Arr [Str ''int('', v, Str '')'']"
      and input = "\<lparr>vol_value = Some (Str ''s''),
        vol_lambda = Some \<lparr>source = Str ''from_str'', needsParens = False\<rparr>\<rparr>"
      and v = "Str ''s''" and l = "\<lparr>source = Str ''from_str'', needsParens = False\<rparr>"]
    compose_step_rule [where H = plainSource and f = "\<lambda>v. Arr [Str ''int('', v, Str '')'']"
      and input = "\<lparr>vol_value = None,
        vol_lambda = Some \<lparr>source = Str ''from_str'', needsParens = False\<rparr>\<rparr>"
      and l = "\<lparr>source = Str ''from_str'', needsParens = False\<rparr>"]
    compose_step_rule [where H = plainSource and f = "\<lambda>v. Arr [Str ''int('', v, Str '')'']"
      and input = identity]
  by (simp add: identity_def plainSource_def)

text \<open>
  C6. Collapsing.  A value-or-lambda that carries both an expression and a pending
  function collapses, with \<open>makeValue\<close>, to the pending function (in parentheses if it
  needs them) applied to the expression; one that carries only an expression collapses to
  that expression unchanged.  Composing a pure lambda with a pure lambda gives a
  value-or-lambda with no value whose lambda is the single \<open>lambda x:\<close> that calls the
  second on the first called on \<open>x\<close>, and \<open>makeLambda\<close> returns that lambda as it is.
\<close>

theorem collapse_rule:
  "(vol_value vol = Some v \<and> vol_lambda vol = Some l \<longrightarrow>
      makeValue H vol = Inr (Arr [parenIfNeeded H l, Str ''('', v, Str '')''])) \<and>
   (vol_value vol = Some v \<and> vol_lambda vol = None \<longrightarrow> makeValue H vol = Inr v) \<and>
   (vol_value a = None \<and> vol_lambda a = Some la \<and> vol_value b = None \<and> vol_lambda b = Some lb \<longrightarrow>
      (\<exists>r. compose H a (Vol b) = Inr r \<and> vol_value r = None \<and>
           vol_lambda r = Some (multiWord H (Str '''')
             [Str ''lambda x: '', parenIfNeeded H lb, Str ''('', parenIfNeeded H la, Str ''(x))'']) \<and>
           makeLambda H r = multiWord H (Str '''')
             [Str ''lambda x: '', parenIfNeeded H lb, Str ''('', parenIfNeeded H la, Str ''(x))'']))"
  by (simp add: makeValue_def makeLambda_def)

theorem collapse_rule_witness:
  "makeValue plainSource
      \<lparr>vol_value = Some (Str ''s''),
       vol_lambda = Some \<lparr>source = Str ''from_int'', needsParens = False\<rparr>\<rparr> =
     Inr (Arr [Str ''from_int'', Str ''('', Str ''s'', Str '')'']) \<and>
   makeValue plainSource \<lparr>vol_value = Some (Str ''s''), vol_lambda = None\<rparr> = Inr (Str ''s'') \<and>
   (\<exists>r. compose plainSource
          \<lparr>vol_value = None, vol_lambda = Some \<lparr>source = Str ''from_str'', needsParens = False\<rparr>\<rparr>
          (Vol \<lparr>vol_value = None,
                vol_lambda = Some \<lparr>source = Str ''from_datetime'', needsParens = False\<rparr>\<rparr>) = Inr r \<and>
        vol_value r = None \<and>
        vol_lambda r = Some \<lparr>source = Arr [Str ''lambda x: '', Str '''', Str ''from_datetime'', Str '''',
            Str ''('', Str '''', Str ''from_str'', Str '''', Str ''(x))''], needsParens = True\<rparr> \<and>
        makeLambda plainSource r = \<lparr>source = Arr [Str ''lambda x: '', Str '''', Str ''from_datetime'',
            Str '''', Str ''('', Str '''', Str ''from_str'', Str '''', Str ''(x))''], needsParens = True\<rparr>)"
  using
    collapse_rule [where H = plainSource and v = "Str ''s''"
      and vol = "\<lparr>vol_value = Some (Str ''s''),
        vol_lambda = Some \<lparr>source = Str ''from_int'', needsParens = False\<rparr>\<rparr>"
      and l = "\<lparr>source = Str ''from_int'', needsParens = False\<rparr>"
      and a = "\<lparr>vol_value = None, vol_lambda = Some \<lparr>source = Str ''from_str'', needsParens = False\<rparr>\<rparr>"
      and la = "\<lparr>source = Str ''from_str'', needsParens = False\<rparr>"
      and b = "\<lparr>vol_value = None, vol_lambda = Some \<lparr>source = Str ''from_datetime'', needsParens = False\<rparr>\<rparr>"
      and lb = "\<lparr>source = Str ''from_datetime'', needsParens = False\<rparr>"]
    collapse_rule [where H = plainSource and v = "Str ''s''"
      and vol = "\<lparr>vol_value = Some (Str ''s''), vol_lambda = None\<rparr>"]
  by (simp add: plainSource_def)

text \<open>
  C10. Composing with a second value-or-lambda.  Whatever the first argument is, a
  second argument that has a value panics with "Cannot compose into a value".  A second
  argument without a value (a pure lambda, or empty) never panics, and an empty one
  returns the first argument unchanged.
\<close>

theorem compose_vol_panic:
  "(vol_value f \<noteq> None \<longrightarrow>
      compose H input (Vol f) = Inl (Panic ''Cannot compose into a value'')) \<and>
   (vol_value f = None \<longrightarrow> (\<exists>r. compose H input (Vol f) = Inr r)) \<and>
   (vol_value f = None \<and> vol_lambda f = None \<longrightarrow> compose H input (Vol f) = Inr input)"
  by (auto simp: makeValue_def split: option.splits)

theorem compose_vol_panic_witness:
  "compose plainSource identity
      (Vol \<lparr>vol_value = Some (Str ''x''), vol_lambda = None\<rparr>) =
     Inl (Panic ''Cannot compose into a value'') \<and>
   (\<exists>r. compose plainSource \<lparr>vol_value = Some (Str ''s''), vol_lambda = None\<rparr>
          (Vol \<lparr>vol_value = None,
                vol_lambda = Some \<lparr>source = Str ''from_int'', needsParens = False\<rparr>\<rparr>) = Inr r) \<and>
   compose plainSource \<lparr>vol_value = Some (Str ''s''), vol_lambda = None\<rparr> (Vol identity) =
     Inr \<lparr>vol_value = Some (Str ''s''), vol_lambda = None\<rparr>"
  using
    compose_vol_panic [where H = plainSource and input = identity
      and f = "\<lparr>vol_value = Some (Str ''x''), vol_lambda = None\<rparr>"]
    compose_vol_panic [where H = plainSource
      and input = "\<lparr>vol_value = Some (Str ''s''), vol_lambda = None\<rparr>"
      and f = "\<lparr>vol_value = None,
        vol_lambda = Some \<lparr>source = Str ''from_int'', needsParens = False\<rparr>\<rparr>"]
    compose_vol_panic [where H = plainSource
      and input = "\<lparr>vol_value = Some (Str ''s''), vol_lambda = None\<rparr>" and f = identity]
  by (simp add: identity_def)

section \<open>Properties of the union converter\<close>

lemma from_union_first_success:
  "raising pre x s = Some s1 \<Longrightarrow> f x s1 = (Inr y, s2) \<Longrightarrow>
   from_union (pre @ f # post) x s = (Inr y, s2)"
proof (induction pre arbitrary: s)
  case Nil
  then show ?case by simp
next
  case (Cons g pre)
  obtain r s' where g: "g x s = (r, s')" by (cases "g x s")
  with Cons.prems(1) obtain e where r: "r = Inl e" and rest: "raising pre x s' = Some s1"
    by (cases r) auto
  from Cons.IH [OF rest Cons.prems(2)] g r show ?case by simp
qed

lemma from_union_all_raise:
  "raising fs x s = Some s1 \<Longrightarrow> from_union fs x s = (Inl AssertionError, s1)"
proof (induction fs arbitrary: s)
  case Nil
  then show ?case by simp
next
  case (Cons g fs)
  obtain r s' where g: "g x s = (r, s')" by (cases "g x s")
  with Cons.prems obtain e where r: "r = Inl e" and rest: "raising fs x s' = Some s1"
    by (cases r) auto
  from Cons.IH [OF rest] g r show ?case by simp
qed

lemma from_union_cases:
  "(\<exists>s1. raising fs x s = Some s1 \<and> from_union fs x s = (Inl AssertionError, s1)) \<or>
   (\<exists>pre f post s1 y s2. fs = pre @ f # post \<and> raising pre x s = Some s1 \<and>
        f x s1 = (Inr y, s2) \<and> from_union fs x s = (Inr y, s2))"
proof (induction fs arbitrary: s)
  case Nil
  then show ?case by simp
next
  case (Cons g fs)
  obtain r s' where g: "g x s = (r, s')" by (cases "g x s")
  show ?case
  proof (cases r)
    case (Inr y)
    with g have "g # fs = [] @ g # fs \<and> raising [] x s = Some s \<and> g x s = (Inr y, s') \<and>
        from_union (g # fs) x s = (Inr y, s')"
      by simp
    then show ?thesis by blast
  next
    case (Inl e)
    from Cons.IH [of s'] show ?thesis
    proof
      assume "\<exists>s1. raising fs x s' = Some s1 \<and> from_union fs x s' = (Inl AssertionError, s1)"
      with g Inl show ?thesis by simp
    next
      assume "\<exists>pre f post s1 y s2. fs = pre @ f # post \<and> raising pre x s' = Some s1 \<and>
          f x s1 = (Inr y, s2) \<and> from_union fs x s' = (Inr y, s2)"
      then obtain pre f post s1 y s2 where
        h: "fs = pre @ f # post" "raising pre x s' = Some s1" "f x s1 = (Inr y, s2)"
           "from_union fs x s' = (Inr y, s2)"
        by blast
      with g Inl have "g # fs = (g # pre) @ f # post \<and> raising (g # pre) x s = Some s1 \<and>
          f x s1 = (Inr y, s2) \<and> from_union (g # fs) x s = (Inr y, s2)"
        by simp
      then show ?thesis by blast
    qed
  qed
qed

text \<open>
  C3. \<open>from_union\<close> calls the branches in list order.  If the branches before \<open>f\<close> all
  raise on \<open>x\<close> and \<open>f\<close> returns \<open>y\<close>, then \<open>from_union\<close> returns \<open>y\<close>, and the state it
  leaves is the one \<open>f\<close> left: whatever branches follow \<open>f\<close> in the list, none of them
  was called.  The exceptions of the branches before \<open>f\<close> do not reach the caller.  If
  every branch raises, \<open>from_union\<close> raises \<open>AssertionError\<close> after the last call.  One
  of the two always happens.
\<close>

theorem from_union_try_order:
  "(raising pre x s = Some s1 \<and> f x s1 = (Inr y, s2) \<longrightarrow>
      from_union (pre @ f # post) x s = (Inr y, s2)) \<and>
   (raising fs x s = Some s1 \<longrightarrow> from_union fs x s = (Inl AssertionError, s1)) \<and>
   ((\<exists>s'. raising fs x s = Some s' \<and> from_union fs x s = (Inl AssertionError, s')) \<or>
    (\<exists>pre' f' post' s' y' s''. fs = pre' @ f' # post' \<and> raising pre' x s = Some s' \<and>
        f' x s' = (Inr y', s'') \<and> from_union fs x s = (Inr y', s'')))"
  using from_union_first_success [of pre x s s1 f y s2 post] from_union_all_raise [of fs x s s1]
    from_union_cases [of fs x s]
  by blast

theorem from_union_try_order_witness:
  "from_union [failingBranch ''f1'', failingBranch ''f2'', succeedingBranch ''f3'' 1,
       succeedingBranch ''f4'' 2] 5 [] = (Inr 6, [''f1'', ''f2'', ''f3'']) \<and>
   from_union [failingBranch ''f1'', failingBranch ''f2''] 5 [] =
     (Inl AssertionError, [''f1'', ''f2''])"
  using
    from_union_try_order [where pre = "[failingBranch ''f1'', failingBranch ''f2'']" and x = 5
      and s = "[]" and ?s1.0 = "[''f1'', ''f2'']" and f = "succeedingBranch ''f3'' 1" and y = 6
      and ?s2.0 = "[''f1'', ''f2'', ''f3'']" and post = "[succeedingBranch ''f4'' 2]"
      and fs = "[failingBranch ''f1'', failingBranch ''f2'']"]
  by (simp add: failingBranch_def succeedingBranch_def)

section \<open>Properties of the identifier styles\<close>






















section \<open>Properties of the transformer compiler\<close>

lemma compose_step_total: "\<exists>r. compose H input (Step f) = Inr r"
  by (simp add: makeValue_def split: option.splits)

lemma compose_lambda_total:
  "\<exists>r. compose H input (Vol \<lparr>vol_value = None, vol_lambda = Some l\<rparr>) = Inr r"
  by (simp add: makeValue_def split: option.splits)

lemma conv_union: "conv CfUnion = Arr [Str ''from_'', Str ''union'']"
  by (simp add: conv_def startsWith_def)

lemma conv_from_datetime: "conv CfFromDatetime = Str ''from_datetime''"
  by (simp add: conv_def startsWith_def)

lemma transformerLambdas_all:
  "list_all2 (\<lambda>x vol. transformer H identity x targetType = Inr vol) xs vols \<Longrightarrow>
   transformerLambdas H xs targetType = Inr (map (\<lambda>vol. source (makeLambda H vol)) vols)"
  by (induction xs vols rule: list_all2_induct) simp_all

lemma transformerLambdas_panic:
  "list_all2 (\<lambda>x vol. transformer H identity x targetType = Inr vol) pre vols \<Longrightarrow>
   transformer H identity x targetType = Inl p \<Longrightarrow>
   transformerLambdas H (pre @ x # post) targetType = Inl p"
  by (induction pre vols rule: list_all2_induct) simp_all

text \<open>
  C7. A choice node, of either class.  Every branch is compiled on its own from
  \<open>identity\<close> with the same target type, whatever the input and the other branches are,
  and made a lambda.  When the branches compile to \<open>vols\<close>, the result is the input
  composed with the step that writes the call \<open>from_union([l1, ..., ln], v)\<close>: the
  lambdas in the order of the branches, then the input value.  When a branch panics the
  compilation panics with the first such panic.
\<close>

theorem choice_compiles_branches:
  "(xfer = DecodingChoiceTransformer s xs \<or> xfer = ChoiceTransformer s xs) \<longrightarrow>
     (list_all2 (\<lambda>x vol. transformer H identity x targetType = Inr vol) xs vols \<longrightarrow>
        transformer H input xfer targetType =
          compose H input
            (Step (\<lambda>v. Arr [Arr [Str ''from_'', Str ''union''], Str ''(['',
               Arr (intercalate (Str '', '') (map (\<lambda>vol. source (makeLambda H vol)) vols)),
               Str ''], '', v, Str '')'']))) \<and>
     (xs = pre @ x # post \<and>
      list_all2 (\<lambda>x vol. transformer H identity x targetType = Inr vol) pre vols \<and>
      transformer H identity x targetType = Inl p \<longrightarrow>
        transformer H input xfer targetType = Inl p)"
  using transformerLambdas_all [of H targetType xs vols]
    transformerLambdas_panic [of H targetType pre vols x p post]
  by (auto simp: conv_union arrayIntercalate_def)

text \<open>
  C4. A parse-string node.  The immediate target type is the source type of the
  consumer, or the target type when there is no consumer.  If its kind is \<open>integer\<close>, the
  input is composed with the step that writes \<open>int(v)\<close>; if \<open>enum\<close>, the deserializer of
  the immediate target type is applied to the input; if \<open>date-time\<close>, the input is
  composed with the lambda \<open>from_datetime\<close>; the result then goes to the consumer.  The
  two compositions cannot panic.  For every other kind the compilation panics, whatever
  the input and the consumer are, and no value-or-lambda is produced.
\<close>

theorem parse_string_dispatch:
  "itt = (case consumer of None \<Rightarrow> targetType | Some c \<Rightarrow> sourceType c) \<longrightarrow>
     (kind itt = ''integer'' \<longrightarrow>
        (\<exists>vol. compose H input (Step (\<lambda>v. Arr [Str ''int('', v, Str '')''])) = Inr vol \<and>
           transformer H input (ParseStringTransformer s consumer) targetType =
             consume H consumer vol targetType)) \<and>
     (kind itt = ''enum'' \<longrightarrow>
        transformer H input (ParseStringTransformer s consumer) targetType =
          (case deserializer H input itt of
             Inl p \<Rightarrow> Inl p
           | Inr vol \<Rightarrow> consume H consumer vol targetType)) \<and>
     (kind itt = ''date-time'' \<longrightarrow>
        (\<exists>vol. compose H input
             (Vol \<lparr>vol_value = None, vol_lambda = Some (singleWord H [Str ''from_datetime''])\<rparr>) =
               Inr vol \<and>
           transformer H input (ParseStringTransformer s consumer) targetType =
             consume H consumer vol targetType)) \<and>
     (kind itt \<noteq> ''integer'' \<and> kind itt \<noteq> ''enum'' \<and> kind itt \<noteq> ''date-time'' \<longrightarrow>
        transformer H input (ParseStringTransformer s consumer) targetType =
          Inl (Panic (''Parsing of '' @ kind itt @ '' in a transformer is not supported'')))"
proof -
  obtain r1 where r1: "compose H input (Step (\<lambda>v. Arr [Str ''int('', v, Str '')''])) = Inr r1"
    using compose_step_total by blast
  obtain r2 where r2: "compose H input
      (Vol \<lparr>vol_value = None, vol_lambda = Some (singleWord H [Str ''from_datetime''])\<rparr>) = Inr r2"
    using compose_lambda_total by blast
  show ?thesis
    using r1 r2 by (simp add: Let_def convFn_def conv_from_datetime del: compose.simps)
qed

theorem choice_compiles_branches_witness:
  "transformer plainSource sValue
      (ChoiceTransformer stringType
        [DecodingTransformer integerType None, DecodingTransformer stringType None]) stringType =
     Inr \<lparr>vol_value = Some (Arr [Arr [Str ''from_'', Str ''union''], Str ''(['',
            Arr [Arr [Arr [Str ''from_'', Str ''int'']], Str '', '',
                 Arr [Arr [Str ''from_'', Str ''str'']]],
            Str ''], '', Str ''s'', Str '')'']),
          vol_lambda = None\<rparr> \<and>
   transformer plainSource sValue
      (DecodingChoiceTransformer stringType
        [DecodingTransformer integerType None, OtherTransformer ''min-max'' stringType,
         DecodingTransformer stringType None]) stringType =
     Inl (Panic ''Transformer min-max is not supported'')"
  using
    choice_compiles_branches [where H = plainSource and input = sValue and s = stringType
      and targetType = stringType
      and xfer = "ChoiceTransformer stringType
        [DecodingTransformer integerType None, DecodingTransformer stringType None]"
      and xs = "[DecodingTransformer integerType None, DecodingTransformer stringType None]"
      and vols = "[\<lparr>vol_value = None,
                     vol_lambda = Some \<lparr>source = Arr [Arr [Str ''from_'', Str ''int'']],
                                        needsParens = False\<rparr>\<rparr>,
                   \<lparr>vol_value = None,
                     vol_lambda = Some \<lparr>source = Arr [Arr [Str ''from_'', Str ''str'']],
                                        needsParens = False\<rparr>\<rparr>]"]
    choice_compiles_branches [where H = plainSource and input = sValue and s = stringType
      and targetType = stringType
      and xfer = "DecodingChoiceTransformer stringType
        [DecodingTransformer integerType None, OtherTransformer ''min-max'' stringType,
         DecodingTransformer stringType None]"
      and xs = "[DecodingTransformer integerType None, OtherTransformer ''min-max'' stringType,
         DecodingTransformer stringType None]"
      and pre = "[DecodingTransformer integerType None]"
      and x = "OtherTransformer ''min-max'' stringType"
      and post = "[DecodingTransformer stringType None]"
      and p = "Panic ''Transformer min-max is not supported''"
      and vols = "[\<lparr>vol_value = None,
                     vol_lambda = Some \<lparr>source = Arr [Arr [Str ''from_'', Str ''int'']],
                                        needsParens = False\<rparr>\<rparr>]"]
  by (simp add: plainSource_def sValue_def integerType_def stringType_def identity_def
      convFn_def conv_def startsWith_def makeLambda_def makeValue_def)

theorem parse_string_dispatch_witness:
  "transformer plainSource sValue (ParseStringTransformer stringType None) integerType =
     Inr \<lparr>vol_value = Some (Arr [Str ''int('', Str ''s'', Str '')'']), vol_lambda = None\<rparr> \<and>
   transformer plainSource sValue (ParseStringTransformer stringType None) colorEnum =
     Inr \<lparr>vol_value = Some (Str ''s''),
          vol_lambda = Some \<lparr>source = Arr [NameRef ''Color''], needsParens = False\<rparr>\<rparr> \<and>
   transformer plainSource sValue
      (ParseStringTransformer stringType (Some (UnionInstantiationTransformer dateTimeType)))
      stringType =
     Inr \<lparr>vol_value = Some (Str ''s''),
          vol_lambda = Some \<lparr>source = Arr [Str ''from_datetime''], needsParens = False\<rparr>\<rparr> \<and>
   transformer plainSource sValue (ParseStringTransformer stringType None) boolType =
     Inl (Panic ''Parsing of bool in a transformer is not supported'')"
  using
    parse_string_dispatch [where H = plainSource and input = sValue and s = stringType
      and consumer = None and targetType = integerType and itt = integerType]
    parse_string_dispatch [where H = plainSource and input = sValue and s = stringType
      and consumer = None and targetType = colorEnum and itt = colorEnum]
    parse_string_dispatch [where H = plainSource and input = sValue and s = stringType
      and consumer = "Some (UnionInstantiationTransformer dateTimeType)"
      and targetType = stringType and itt = dateTimeType]
    parse_string_dispatch [where H = plainSource and input = sValue and s = stringType
      and consumer = None and targetType = boolType and itt = boolType]
  by (simp add: plainSource_def sValue_def integerType_def stringType_def colorEnum_def
      dateTimeType_def boolType_def makeValue_def)

end
